theory Spec2Isabelle
  imports Main "HOL-Library.Word"
begin

section \<open>Names, object types and faults\<close>

text \<open>
  Modelled from the spec: the header \<^verbatim>\<open>GLcommon/objectNameManager.h\<close> declares the
  types below and is not among the sources. A local name is an unsigned integer (64 bits
  here), a global name is the \<^verbatim>\<open>unsigned int\<close> of the dispatcher, a texture reference
  count is a \<^verbatim>\<open>size_t\<close>, and the object types are the enumeration
  VertexBuffer, Texture, Renderbuffer, Framebuffer, Shader followed by its count.
\<close>

type_synonym ObjectLocalName = "64 word"
type_synonym GLuint = "32 word"
type_synonym size_t = "64 word"
type_synonym NamedObjectType = nat

definition VERTEXBUFFER :: NamedObjectType where "VERTEXBUFFER = 0"
definition TEXTURE :: NamedObjectType where "TEXTURE = 1"
definition RENDERBUFFER :: NamedObjectType where "RENDERBUFFER = 2"
definition FRAMEBUFFER :: NamedObjectType where "FRAMEBUFFER = 3"
definition SHADER :: NamedObjectType where "SHADER = 4"
definition NUM_OBJECT_TYPES :: NamedObjectType where "NUM_OBJECT_TYPES = 5"

text \<open>
  What stops a call from returning: a failed \<^verbatim>\<open>assert\<close>, and a call through an entry of
  \<^verbatim>\<open>m_glDelete\<close> that was never bound (or lies outside the table). Assertions are taken
  as compiled in; without them \<^verbatim>\<open>assert(m_globalTextureRefCounter)\<close> is followed by a
  lookup through the null pointer.
\<close>

datatype fault = AssertionFailure | UnboundDelete

text \<open>
  \<^verbatim>\<open>std::unordered_map::emplace\<close> inserts only when the key has no entry yet;
  \<^verbatim>\<open>operator[]\<close> followed by an assignment is the plain map update.
\<close>

definition emplace :: "('k \<rightharpoonup> 'v) \<Rightarrow> 'k \<Rightarrow> 'v \<Rightarrow> ('k \<rightharpoonup> 'v)" where
  "emplace m k v = (if m k = None then m(k \<mapsto> v) else m)"

section \<open>GlobalNameSpace\<close>

text \<open>
  The dispatcher is outside the program. The name a \<^verbatim>\<open>glGen*\<close> entry writes is an
  argument \<open>glGen\<close> of the call that reaches it, and the calls made to the
  \<^verbatim>\<open>glDelete*\<close> entries are recorded in \<open>glDeleted\<close>, latest first.
\<close>

record GlobalNameSpace =
  m_deleteInitialized :: bool
  glDeleted :: "(NamedObjectType \<times> GLuint) list"

definition GlobalNameSpace_genName ::
  "NamedObjectType \<Rightarrow> GLuint \<Rightarrow> GlobalNameSpace \<Rightarrow> GLuint \<times> GlobalNameSpace" where
  "GlobalNameSpace_genName p_type glGen gns =
     (if p_type \<ge> NUM_OBJECT_TYPES then (0, gns)
      else
        let name =
          (if p_type = VERTEXBUFFER then glGen
           else if p_type = TEXTURE then glGen
           else if p_type = RENDERBUFFER then glGen
           else if p_type = FRAMEBUFFER then glGen
           else 0)
        in (name, gns\<lparr>m_deleteInitialized := True\<rparr>))"

definition GlobalNameSpace_deleteName ::
  "NamedObjectType \<Rightarrow> GLuint \<Rightarrow> GlobalNameSpace \<Rightarrow> fault + GlobalNameSpace" where
  "GlobalNameSpace_deleteName p_type p_name gns =
     (if p_type \<noteq> SHADER then
        (if p_type < NUM_OBJECT_TYPES \<and> m_deleteInitialized gns
         then Inr (gns\<lparr>glDeleted := (p_type, p_name) # glDeleted gns\<rparr>)
         else Inl UnboundDelete)
      else Inr gns)"

text \<open>
  Modelled from the spec: the initial value of \<^verbatim>\<open>m_deleteInitialized\<close> comes from the
  header; the deletion entries are bound on the first allocation, so it starts unset.
\<close>

definition GlobalNameSpace_new :: GlobalNameSpace where
  "GlobalNameSpace_new = \<lparr>m_deleteInitialized = False, glDeleted = []\<rparr>"

section \<open>NameSpace\<close>

record NameSpace =
  m_nextName :: ObjectLocalName
  m_localToGlobalMap :: "ObjectLocalName \<rightharpoonup> GLuint"
  m_globalToLocalMap :: "GLuint \<rightharpoonup> ObjectLocalName"
  m_type :: NamedObjectType

text \<open>
  Modelled from the spec: the counter \<^verbatim>\<open>m_nextName\<close> gets its initial value in the
  header; the spec's monotonically increasing counter starts at 0.
\<close>

definition NameSpace_new :: "NamedObjectType \<Rightarrow> NameSpace" where
  "NameSpace_new p_type =
     \<lparr>m_nextName = 0, m_localToGlobalMap = Map.empty, m_globalToLocalMap = Map.empty,
      m_type = p_type\<rparr>"

text \<open>
  The \<^verbatim>\<open>do ... while\<close> of \<^verbatim>\<open>NameSpace::genName\<close>: the counter is incremented (and wraps)
  until it is neither 0 nor a key of the local-to-global map. \<open>None\<close> is the loop that
  never ends.
\<close>

partial_function (option) genLocalLoop ::
  "(ObjectLocalName \<rightharpoonup> GLuint) \<Rightarrow> ObjectLocalName \<Rightarrow> ObjectLocalName option" where
  "genLocalLoop m nextName =
     (let localName = nextName + 1
      in if localName = 0 \<or> m localName \<noteq> None then genLocalLoop m localName
         else Some localName)"

definition NameSpace_genName ::
  "ObjectLocalName \<Rightarrow> bool \<Rightarrow> bool \<Rightarrow> GLuint \<Rightarrow> NameSpace \<times> GlobalNameSpace \<Rightarrow>
     (ObjectLocalName \<times> NameSpace \<times> GlobalNameSpace) option" where
  "NameSpace_genName p_localName genGlobal genLocal glGen = (\<lambda>(ns, gns).
     case (if genLocal then genLocalLoop (m_localToGlobalMap ns) (m_nextName ns)
           else Some p_localName) of
       None \<Rightarrow> None
     | Some localName \<Rightarrow>
         let ns1 = (if genLocal then ns\<lparr>m_nextName := localName\<rparr> else ns)
         in if genGlobal then
              let (globalName, gns') = GlobalNameSpace_genName (m_type ns1) glGen gns
              in Some (localName,
                       ns1\<lparr>m_localToGlobalMap := (m_localToGlobalMap ns1)(localName \<mapsto> globalName),
                           m_globalToLocalMap := (m_globalToLocalMap ns1)(globalName \<mapsto> localName)\<rparr>,
                       gns')
            else Some (localName, ns1, gns))"

definition NameSpace_genGlobalName ::
  "GLuint \<Rightarrow> NameSpace \<times> GlobalNameSpace \<Rightarrow> GLuint \<times> GlobalNameSpace" where
  "NameSpace_genGlobalName glGen = (\<lambda>(ns, gns). GlobalNameSpace_genName (m_type ns) glGen gns)"

definition NameSpace_getGlobalName :: "ObjectLocalName \<Rightarrow> NameSpace \<Rightarrow> GLuint" where
  "NameSpace_getGlobalName p_localName ns =
     (case m_localToGlobalMap ns p_localName of Some g \<Rightarrow> g | None \<Rightarrow> 0)"

definition NameSpace_getLocalName :: "GLuint \<Rightarrow> NameSpace \<Rightarrow> ObjectLocalName" where
  "NameSpace_getLocalName p_globalName ns =
     (case m_globalToLocalMap ns p_globalName of Some l \<Rightarrow> l | None \<Rightarrow> 0)"

definition NameSpace_isObject :: "ObjectLocalName \<Rightarrow> NameSpace \<Rightarrow> bool" where
  "NameSpace_isObject p_localName ns = (m_localToGlobalMap ns p_localName \<noteq> None)"

definition NameSpace_deleteName ::
  "ObjectLocalName \<Rightarrow> NameSpace \<times> GlobalNameSpace \<Rightarrow> fault + NameSpace \<times> GlobalNameSpace" where
  "NameSpace_deleteName p_localName = (\<lambda>(ns, gns).
     case m_localToGlobalMap ns p_localName of
       None \<Rightarrow> Inr (ns, gns)
     | Some g \<Rightarrow>
         (case (if m_type ns \<noteq> TEXTURE then GlobalNameSpace_deleteName (m_type ns) g gns
                else Inr gns) of
            Inl e \<Rightarrow> Inl e
          | Inr gns' \<Rightarrow>
              Inr (ns\<lparr>m_globalToLocalMap := (m_globalToLocalMap ns)(g := None),
                      m_localToGlobalMap := (m_localToGlobalMap ns)(p_localName := None)\<rparr>,
                   gns')))"

definition NameSpace_replaceGlobalName ::
  "ObjectLocalName \<Rightarrow> GLuint \<Rightarrow> NameSpace \<times> GlobalNameSpace \<Rightarrow>
     fault + NameSpace \<times> GlobalNameSpace" where
  "NameSpace_replaceGlobalName p_localName p_globalName = (\<lambda>(ns, gns).
     case m_localToGlobalMap ns p_localName of
       None \<Rightarrow> Inr (ns, gns)
     | Some g \<Rightarrow>
         (case (if m_type ns \<noteq> TEXTURE then GlobalNameSpace_deleteName (m_type ns) g gns
                else Inr gns) of
            Inl e \<Rightarrow> Inl e
          | Inr gns' \<Rightarrow>
              Inr (ns\<lparr>m_localToGlobalMap := (m_localToGlobalMap ns)(p_localName \<mapsto> p_globalName),
                      m_globalToLocalMap :=
                        emplace ((m_globalToLocalMap ns)(g := None)) p_globalName p_localName\<rparr>,
                   gns')))"

section \<open>ShareGroup\<close>

text \<open>
  \<^verbatim>\<open>m_nameSpace\<close> is the array of one NameSpace per object type, read only below
  \<^verbatim>\<open>NUM_OBJECT_TYPES\<close>. The two \<^verbatim>\<open>void*\<close> members are \<open>None\<close> while null and hold the
  map once it has been allocated. An \<^verbatim>\<open>ObjectDataPtr\<close> is \<open>None\<close> when empty. All
  NameSpaces point at one GlobalNameSpace, which is passed along with the group.
\<close>

type_synonym 'd ObjectDataPtr = "'d option"

record 'd ShareGroup =
  m_nameSpace :: "NamedObjectType \<Rightarrow> NameSpace"
  m_objectsData :: "(NamedObjectType \<times> ObjectLocalName \<rightharpoonup> 'd ObjectDataPtr) option"
  m_globalTextureRefCounter :: "(GLuint \<rightharpoonup> size_t) option"

text \<open>
  Modelled from the spec: the constructor fills \<^verbatim>\<open>m_nameSpace\<close> only; the null initial
  values of the two map pointers come from the header.
\<close>

definition ShareGroup_new :: "'d ShareGroup" where
  "ShareGroup_new =
     \<lparr>m_nameSpace = NameSpace_new, m_objectsData = None, m_globalTextureRefCounter = None\<rparr>"

definition incTexRefCounterNoLock :: "GLuint \<Rightarrow> 'd ShareGroup \<Rightarrow> size_t \<times> 'd ShareGroup" where
  "incTexRefCounterNoLock p_globalName sg =
     (let tbl = (case m_globalTextureRefCounter sg of None \<Rightarrow> Map.empty | Some m \<Rightarrow> m);
          val = (case tbl p_globalName of None \<Rightarrow> 0 | Some v \<Rightarrow> v) + 1
      in (val, sg\<lparr>m_globalTextureRefCounter := Some (tbl(p_globalName \<mapsto> val))\<rparr>))"

definition incTexRefCounter :: "GLuint \<Rightarrow> 'd ShareGroup \<Rightarrow> size_t \<times> 'd ShareGroup" where
  "incTexRefCounter p_globalName sg = incTexRefCounterNoLock p_globalName sg"

definition decTexRefCounterAndReleaseIf0 ::
  "GLuint \<Rightarrow> 'd ShareGroup \<times> GlobalNameSpace \<Rightarrow>
     fault + size_t \<times> 'd ShareGroup \<times> GlobalNameSpace" where
  "decTexRefCounterAndReleaseIf0 p_globalName = (\<lambda>(sg, gns).
     case m_globalTextureRefCounter sg of
       None \<Rightarrow> Inl AssertionFailure
     | Some tbl \<Rightarrow>
         (case tbl p_globalName of
            None \<Rightarrow> Inr (0, sg, gns)
          | Some v \<Rightarrow>
              if v = 0 then Inl AssertionFailure
              else
                let val = v - 1
                in if val \<noteq> 0
                   then Inr (val,
                             sg\<lparr>m_globalTextureRefCounter := Some (tbl(p_globalName \<mapsto> val))\<rparr>,
                             gns)
                   else
                     (case GlobalNameSpace_deleteName TEXTURE p_globalName gns of
                        Inl e \<Rightarrow> Inl e
                      | Inr gns' \<Rightarrow>
                          Inr (0,
                               sg\<lparr>m_globalTextureRefCounter := Some (tbl(p_globalName := None))\<rparr>,
                               gns'))))"

definition ShareGroup_genName ::
  "NamedObjectType \<Rightarrow> ObjectLocalName \<Rightarrow> bool \<Rightarrow> GLuint \<Rightarrow>
     'd ShareGroup \<times> GlobalNameSpace \<Rightarrow>
     (ObjectLocalName \<times> 'd ShareGroup \<times> GlobalNameSpace) option" where
  "ShareGroup_genName p_type p_localName genLocal glGen = (\<lambda>(sg, gns).
     if p_type \<ge> NUM_OBJECT_TYPES then Some (0, sg, gns)
     else
       case NameSpace_genName p_localName True genLocal glGen (m_nameSpace sg p_type, gns) of
         None \<Rightarrow> None
       | Some (localName, ns', gns') \<Rightarrow>
           let sg1 = sg\<lparr>m_nameSpace := (m_nameSpace sg)(p_type := ns')\<rparr>
           in if p_type = TEXTURE
              then Some (localName,
                         snd (incTexRefCounterNoLock
                                (NameSpace_getGlobalName localName (m_nameSpace sg1 p_type)) sg1),
                         gns')
              else Some (localName, sg1, gns'))"

definition ShareGroup_genGlobalName ::
  "NamedObjectType \<Rightarrow> GLuint \<Rightarrow> 'd ShareGroup \<times> GlobalNameSpace \<Rightarrow>
     GLuint \<times> 'd ShareGroup \<times> GlobalNameSpace" where
  "ShareGroup_genGlobalName p_type glGen = (\<lambda>(sg, gns).
     if p_type \<ge> NUM_OBJECT_TYPES then (0, sg, gns)
     else
       let (name, gns') = NameSpace_genGlobalName glGen (m_nameSpace sg p_type, gns)
       in (name, sg, gns'))"

definition ShareGroup_getGlobalName ::
  "NamedObjectType \<Rightarrow> ObjectLocalName \<Rightarrow> 'd ShareGroup \<Rightarrow> GLuint \<times> 'd ShareGroup" where
  "ShareGroup_getGlobalName p_type p_localName sg =
     (if p_type \<ge> NUM_OBJECT_TYPES then (0, sg)
      else (NameSpace_getGlobalName p_localName (m_nameSpace sg p_type), sg))"

definition ShareGroup_getLocalName ::
  "NamedObjectType \<Rightarrow> GLuint \<Rightarrow> 'd ShareGroup \<Rightarrow> ObjectLocalName \<times> 'd ShareGroup" where
  "ShareGroup_getLocalName p_type p_globalName sg =
     (if p_type \<ge> NUM_OBJECT_TYPES then (0, sg)
      else (NameSpace_getLocalName p_globalName (m_nameSpace sg p_type), sg))"

definition ShareGroup_deleteName ::
  "NamedObjectType \<Rightarrow> ObjectLocalName \<Rightarrow> 'd ShareGroup \<times> GlobalNameSpace \<Rightarrow>
     fault + 'd ShareGroup \<times> GlobalNameSpace" where
  "ShareGroup_deleteName p_type p_localName = (\<lambda>(sg, gns).
     if p_type \<ge> NUM_OBJECT_TYPES then Inr (sg, gns)
     else
       case NameSpace_deleteName p_localName (m_nameSpace sg p_type, gns) of
         Inl e \<Rightarrow> Inl e
       | Inr (ns', gns') \<Rightarrow>
           Inr (sg\<lparr>m_nameSpace := (m_nameSpace sg)(p_type := ns'),
                   m_objectsData :=
                     (case m_objectsData sg of
                        None \<Rightarrow> None
                      | Some tbl \<Rightarrow> Some (tbl((p_type, p_localName) := None)))\<rparr>,
                gns'))"

definition ShareGroup_isObject ::
  "NamedObjectType \<Rightarrow> ObjectLocalName \<Rightarrow> 'd ShareGroup \<Rightarrow> bool \<times> 'd ShareGroup" where
  "ShareGroup_isObject p_type p_localName sg =
     (if p_type \<ge> NUM_OBJECT_TYPES then (False, sg)
      else (NameSpace_isObject p_localName (m_nameSpace sg p_type), sg))"

definition ShareGroup_replaceGlobalName ::
  "NamedObjectType \<Rightarrow> ObjectLocalName \<Rightarrow> GLuint \<Rightarrow> 'd ShareGroup \<times> GlobalNameSpace \<Rightarrow>
     fault + 'd ShareGroup \<times> GlobalNameSpace" where
  "ShareGroup_replaceGlobalName p_type p_localName p_globalName = (\<lambda>(sg, gns).
     if p_type \<ge> NUM_OBJECT_TYPES then Inr (sg, gns)
     else
       case NameSpace_replaceGlobalName p_localName p_globalName (m_nameSpace sg p_type, gns) of
         Inl e \<Rightarrow> Inl e
       | Inr (ns', gns') \<Rightarrow> Inr (sg\<lparr>m_nameSpace := (m_nameSpace sg)(p_type := ns')\<rparr>, gns'))"

definition ShareGroup_setObjectData ::
  "NamedObjectType \<Rightarrow> ObjectLocalName \<Rightarrow> 'd ObjectDataPtr \<Rightarrow> 'd ShareGroup \<Rightarrow> 'd ShareGroup" where
  "ShareGroup_setObjectData p_type p_localName data sg =
     (if p_type \<ge> NUM_OBJECT_TYPES then sg
      else
        let tbl = (case m_objectsData sg of None \<Rightarrow> Map.empty | Some m \<Rightarrow> m)
        in sg\<lparr>m_objectsData := Some (emplace tbl (p_type, p_localName) data)\<rparr>)"

definition ShareGroup_getObjectData ::
  "NamedObjectType \<Rightarrow> ObjectLocalName \<Rightarrow> 'd ShareGroup \<Rightarrow> 'd ObjectDataPtr \<times> 'd ShareGroup" where
  "ShareGroup_getObjectData p_type p_localName sg =
     (if p_type \<ge> NUM_OBJECT_TYPES then (None, sg)
      else
        (case m_objectsData sg of
           None \<Rightarrow> (None, sg)
         | Some tbl \<Rightarrow>
             (case tbl (p_type, p_localName) of
                None \<Rightarrow> (None, sg)
              | Some d \<Rightarrow> (d, sg))))"

text \<open>Repeated acquisition and release of one texture reference.\<close>

fun acquireTimes :: "nat \<Rightarrow> GLuint \<Rightarrow> 'd ShareGroup \<Rightarrow> 'd ShareGroup" where
  "acquireTimes 0 g sg = sg"
| "acquireTimes (Suc n) g sg = acquireTimes n g (snd (incTexRefCounter g sg))"

fun releaseTimes ::
  "nat \<Rightarrow> GLuint \<Rightarrow> 'd ShareGroup \<times> GlobalNameSpace \<Rightarrow>
     fault + 'd ShareGroup \<times> GlobalNameSpace" where
  "releaseTimes 0 g s = Inr s"
| "releaseTimes (Suc n) g s =
     (case decTexRefCounterAndReleaseIf0 g s of
        Inl e \<Rightarrow> Inl e
      | Inr (r, s') \<Rightarrow> releaseTimes n g s')"

text \<open>The entry of a global name in the texture reference counter, if any.\<close>

definition texRefCount :: "'d ShareGroup \<Rightarrow> GLuint \<Rightarrow> size_t option" where
  "texRefCount sg g =
     (case m_globalTextureRefCounter sg of None \<Rightarrow> None | Some tbl \<Rightarrow> tbl g)"

section \<open>Sequences of operations on one NameSpace\<close>

datatype NameOp =
    Generate ObjectLocalName bool bool GLuint
  | Delete ObjectLocalName
  | Rebind ObjectLocalName GLuint

text \<open>One operation; \<open>None\<close> when the call does not return (endless loop or fault).\<close>

fun NameOp_apply ::
  "NameOp \<Rightarrow> NameSpace \<times> GlobalNameSpace \<Rightarrow> (NameSpace \<times> GlobalNameSpace) option" where
  "NameOp_apply (Generate l genGlobal genLocal glGen) s =
     (case NameSpace_genName l genGlobal genLocal glGen s of
        None \<Rightarrow> None
      | Some (r, s') \<Rightarrow> Some s')"
| "NameOp_apply (Delete l) s =
     (case NameSpace_deleteName l s of Inl e \<Rightarrow> None | Inr s' \<Rightarrow> Some s')"
| "NameOp_apply (Rebind l g) s =
     (case NameSpace_replaceGlobalName l g s of Inl e \<Rightarrow> None | Inr s' \<Rightarrow> Some s')"

text \<open>
  The states at the observation points of a run: the initial one and the one after each
  operation that returned.
\<close>

fun observe ::
  "NameOp list \<Rightarrow> NameSpace \<times> GlobalNameSpace \<Rightarrow> (NameSpace \<times> GlobalNameSpace) list" where
  "observe [] s = [s]"
| "observe (op # ops) s =
     s # (case NameOp_apply op s of None \<Rightarrow> [] | Some s' \<Rightarrow> observe ops s')"

text \<open>The two maps of a NameSpace are inverses of each other.\<close>

definition inverse_maps :: "NameSpace \<Rightarrow> bool" where
  "inverse_maps ns =
     (\<forall>l g. (m_localToGlobalMap ns l = Some g) = (m_globalToLocalMap ns g = Some l))"

text \<open>
  An operation pairs \<open>l\<close> with \<open>g\<close> without clash when \<open>l\<close> has no other global name
  and \<open>g\<close> has no other local name in the table.
\<close>

definition pairs_cleanly :: "NameSpace \<Rightarrow> ObjectLocalName \<Rightarrow> GLuint \<Rightarrow> bool" where
  "pairs_cleanly ns l g =
     ((m_localToGlobalMap ns l = None \<or> m_localToGlobalMap ns l = Some g) \<and>
      (m_globalToLocalMap ns g = None \<or> m_globalToLocalMap ns g = Some l))"

fun clean_op :: "NameOp \<Rightarrow> NameSpace \<times> GlobalNameSpace \<Rightarrow> bool" where
  "clean_op (Generate l genGlobal genLocal glGen) (ns, gns) =
     (\<not> genGlobal \<or>
      (if genLocal
       then m_globalToLocalMap ns (fst (GlobalNameSpace_genName (m_type ns) glGen gns)) = None
       else pairs_cleanly ns l (fst (GlobalNameSpace_genName (m_type ns) glGen gns))))"
| "clean_op (Delete l) (ns, gns) = True"
| "clean_op (Rebind l g) (ns, gns) =
     (m_localToGlobalMap ns l = None \<or>
      m_globalToLocalMap ns g = None \<or> m_globalToLocalMap ns g = Some l)"

fun clean_run :: "NameOp list \<Rightarrow> NameSpace \<times> GlobalNameSpace \<Rightarrow> bool" where
  "clean_run [] s = True"
| "clean_run (op # ops) s =
     (clean_op op s \<and>
      (case NameOp_apply op s of None \<Rightarrow> True | Some s' \<Rightarrow> clean_run ops s'))"

section \<open>ObjectNameManager\<close>

text \<open>
  A \<^verbatim>\<open>ShareGroupPtr\<close> is the address of a ShareGroup, or \<open>None\<close> when empty. The
  manager's \<^verbatim>\<open>m_groups\<close> pairs group names with such pointers; the ShareGroup objects
  themselves live in \<open>shareGroups\<close>. A ShareGroup is owned by the entries of
  \<^verbatim>\<open>m_groups\<close> that point to it and by the pointers handed out to callers, counted in
  \<open>held\<close>; it is destroyed when the last owner goes. The calls a destroyed group makes to
  the dispatcher are left out.
\<close>

type_synonym GroupName = "64 word"
type_synonym ShareGroupPtr = "nat option"

record 'd ObjectNameManager =
  m_groups :: "(GroupName \<times> nat) list"
  shareGroups :: "nat \<rightharpoonup> 'd ShareGroup"
  held :: "nat \<Rightarrow> nat"
  nextAddress :: nat

definition ObjectNameManager_new :: "'d ObjectNameManager" where
  "ObjectNameManager_new =
     \<lparr>m_groups = [], shareGroups = Map.empty, held = (\<lambda>a. 0), nextAddress = 0\<rparr>"

definition owned :: "nat \<Rightarrow> 'd ObjectNameManager \<Rightarrow> bool" where
  "owned a mgr = (a \<in> snd ` set (m_groups mgr) \<or> held mgr a \<noteq> 0)"

definition reclaim :: "nat \<Rightarrow> 'd ObjectNameManager \<Rightarrow> 'd ObjectNameManager" where
  "reclaim a mgr = (if owned a mgr then mgr else mgr\<lparr>shareGroups := (shareGroups mgr)(a := None)\<rparr>)"

definition handOut :: "nat \<Rightarrow> 'd ObjectNameManager \<Rightarrow> 'd ObjectNameManager" where
  "handOut a mgr = mgr\<lparr>held := (held mgr)(a := held mgr a + 1)\<rparr>"

text \<open>A caller lets go of a pointer it was handed.\<close>

definition dropShareGroupPtr :: "nat \<Rightarrow> 'd ObjectNameManager \<Rightarrow> 'd ObjectNameManager" where
  "dropShareGroupPtr a mgr = reclaim a (mgr\<lparr>held := (held mgr)(a := held mgr a - 1)\<rparr>)"

definition createShareGroup ::
  "GroupName \<Rightarrow> 'd ObjectNameManager \<Rightarrow> ShareGroupPtr \<times> 'd ObjectNameManager" where
  "createShareGroup p_groupName mgr =
     (case map_of (m_groups mgr) p_groupName of
        Some a \<Rightarrow> (Some a, handOut a mgr)
      | None \<Rightarrow>
          let a = nextAddress mgr
          in (Some a,
              handOut a
                (mgr\<lparr>m_groups := m_groups mgr @ [(p_groupName, a)],
                     shareGroups := (shareGroups mgr)(a \<mapsto> ShareGroup_new),
                     nextAddress := a + 1\<rparr>)))"

definition getShareGroup ::
  "GroupName \<Rightarrow> 'd ObjectNameManager \<Rightarrow> ShareGroupPtr \<times> 'd ObjectNameManager" where
  "getShareGroup p_groupName mgr =
     (case map_of (m_groups mgr) p_groupName of
        Some a \<Rightarrow> (Some a, handOut a mgr)
      | None \<Rightarrow> (None, mgr))"

definition attachShareGroup ::
  "GroupName \<Rightarrow> GroupName \<Rightarrow> 'd ObjectNameManager \<Rightarrow> ShareGroupPtr \<times> 'd ObjectNameManager" where
  "attachShareGroup p_groupName p_existingGroupName mgr =
     (case map_of (m_groups mgr) p_existingGroupName of
        None \<Rightarrow> (None, mgr)
      | Some a \<Rightarrow>
          (Some a,
           handOut a
             (if map_of (m_groups mgr) p_groupName = None
              then mgr\<lparr>m_groups := m_groups mgr @ [(p_groupName, a)]\<rparr>
              else mgr)))"

definition deleteShareGroup :: "GroupName \<Rightarrow> 'd ObjectNameManager \<Rightarrow> 'd ObjectNameManager" where
  "deleteShareGroup p_groupName mgr =
     (case map_of (m_groups mgr) p_groupName of
        None \<Rightarrow> mgr
      | Some a \<Rightarrow>
          reclaim a (mgr\<lparr>m_groups := filter (\<lambda>(k, a'). k \<noteq> p_groupName) (m_groups mgr)\<rparr>))"

section \<open>Properties\<close>

lemmas object_types =
  VERTEXBUFFER_def TEXTURE_def RENDERBUFFER_def FRAMEBUFFER_def SHADER_def
  NUM_OBJECT_TYPES_def

lemmas ShareGroup_lookups =
  ShareGroup_getGlobalName_def ShareGroup_getLocalName_def ShareGroup_isObject_def
  ShareGroup_getObjectData_def

subsection \<open>Fresh local names\<close>

lemma word_pred_less: "(w :: 'a::len word) \<noteq> 0 \<Longrightarrow> unat (w - 1) < unat w"
  by (simp add: unat_minus_one unat_gt_0)

text \<open>
  The loop returns as soon as some nonzero name is free: the distance from the counter to
  that name shrinks with every round.
\<close>

lemma genLocalLoop_returns:
  assumes free: "f \<noteq> 0" "m f = None"
  shows "\<exists>r. genLocalLoop m nx = Some r \<and> r \<noteq> 0 \<and> m r = None"
proof (induction "unat (f - (nx + 1))" arbitrary: nx rule: less_induct)
  case less
  show ?case
  proof (cases "nx + 1 = 0 \<or> m (nx + 1) \<noteq> None")
    case False
    then show ?thesis
      by (subst genLocalLoop.simps) (simp add: Let_def)
  next
    case True
    with free have ne: "f - (nx + 1) \<noteq> 0" by auto
    have eq: "f - (nx + 1 + 1) = (f - (nx + 1)) - 1" by simp
    have "unat ((f - (nx + 1)) - 1) < unat (f - (nx + 1))"
      using ne by (rule word_pred_less)
    then have "unat (f - (nx + 1 + 1)) < unat (f - (nx + 1))"
      by (simp only: eq)
    from less[OF this] obtain r where "genLocalLoop m (nx + 1) = Some r" "r \<noteq> 0" "m r = None"
      by blast
    with True show ?thesis
      by (subst genLocalLoop.simps) (auto simp add: Let_def)
  qed
qed

text \<open>
  C8, as stated, fails: a call with \<open>genLocal\<close> unset takes the requested name as it is,
  so \<^verbatim>\<open>genName(0, true, false)\<close> returns 0 and makes 0 a key of the local-to-global map.
\<close>

theorem genName_zero_counterexample:
  "NameSpace_genName 0 True False 7 (NameSpace_new TEXTURE, GlobalNameSpace_new) =
     Some (0,
           \<lparr>m_nextName = 0, m_localToGlobalMap = [0 \<mapsto> 7], m_globalToLocalMap = [7 \<mapsto> 0],
            m_type = TEXTURE\<rparr>,
           \<lparr>m_deleteInitialized = True, glDeleted = []\<rparr>)"
  by (simp add: NameSpace_genName_def NameSpace_new_def GlobalNameSpace_new_def
      GlobalNameSpace_genName_def object_types)

text \<open>
  C8, amended: with \<open>genLocal\<close> set and some nonzero local name free in the table, the
  call returns, the name it returns is nonzero and was not a key before the call, and it
  is the only key the call can add (so 0 does not become one). With \<open>genLocal\<close> unset the
  call returns the requested name unchanged, 0 included, and with \<open>genGlobal\<close> set makes it
  a key.
\<close>

theorem genName_local_name:
  "(genLocal \<longrightarrow> (\<exists>n. n \<noteq> 0 \<and> m_localToGlobalMap ns n = None) \<longrightarrow>
      (\<exists>l ns' gns'.
          NameSpace_genName p genGlobal genLocal glGen (ns, gns) = Some (l, ns', gns') \<and>
          l \<noteq> 0 \<and> m_localToGlobalMap ns l = None \<and>
          dom (m_localToGlobalMap ns') =
            (if genGlobal then insert l (dom (m_localToGlobalMap ns))
             else dom (m_localToGlobalMap ns)))) \<and>
   (\<not> genLocal \<longrightarrow>
      (\<exists>ns' gns'.
          NameSpace_genName p genGlobal genLocal glGen (ns, gns) = Some (p, ns', gns') \<and>
          dom (m_localToGlobalMap ns') =
            (if genGlobal then insert p (dom (m_localToGlobalMap ns))
             else dom (m_localToGlobalMap ns))))"
proof (intro conjI impI)
  assume gl: genLocal and "\<exists>n. n \<noteq> 0 \<and> m_localToGlobalMap ns n = None"
  then obtain f where "f \<noteq> 0" "m_localToGlobalMap ns f = None" by blast
  with genLocalLoop_returns[of f "m_localToGlobalMap ns" "m_nextName ns"]
  obtain r where r: "genLocalLoop (m_localToGlobalMap ns) (m_nextName ns) = Some r"
      "r \<noteq> 0" "m_localToGlobalMap ns r = None"
    by blast
  show "\<exists>l ns' gns'.
          NameSpace_genName p genGlobal genLocal glGen (ns, gns) = Some (l, ns', gns') \<and>
          l \<noteq> 0 \<and> m_localToGlobalMap ns l = None \<and>
          dom (m_localToGlobalMap ns') =
            (if genGlobal then insert l (dom (m_localToGlobalMap ns))
             else dom (m_localToGlobalMap ns))"
    using gl r by (simp add: NameSpace_genName_def Let_def split: prod.split)
next
  assume "\<not> genLocal"
  then show "\<exists>ns' gns'.
          NameSpace_genName p genGlobal genLocal glGen (ns, gns) = Some (p, ns', gns') \<and>
          dom (m_localToGlobalMap ns') =
            (if genGlobal then insert p (dom (m_localToGlobalMap ns))
             else dom (m_localToGlobalMap ns))"
    by (simp add: NameSpace_genName_def Let_def split: prod.split)
qed

theorem genName_local_name_witness:
  "(\<exists>l ns' gns'.
      NameSpace_genName 0 True True 7 (NameSpace_new TEXTURE, GlobalNameSpace_new) =
        Some (l, ns', gns') \<and>
      l \<noteq> 0 \<and> m_localToGlobalMap (NameSpace_new TEXTURE) l = None \<and>
      dom (m_localToGlobalMap ns') = insert l (dom (m_localToGlobalMap (NameSpace_new TEXTURE)))) \<and>
   (\<exists>ns' gns'.
      NameSpace_genName 5 True False 7 (NameSpace_new TEXTURE, GlobalNameSpace_new) =
        Some (5, ns', gns') \<and>
      dom (m_localToGlobalMap ns') = insert 5 (dom (m_localToGlobalMap (NameSpace_new TEXTURE))))"
proof -
  have "\<exists>n. n \<noteq> 0 \<and> m_localToGlobalMap (NameSpace_new TEXTURE) n = None"
    by (rule exI[of _ 1]) (simp add: NameSpace_new_def)
  with genName_local_name[of True "NameSpace_new TEXTURE" 0 True 7 GlobalNameSpace_new]
    genName_local_name[of False "NameSpace_new TEXTURE" 5 True 7 GlobalNameSpace_new]
  show ?thesis by simp
qed

subsection \<open>Object data\<close>

text \<open>Storing under a key without entry: the following lookup returns what was stored.\<close>

lemma setObjectData_fresh_key:
  assumes "t < NUM_OBJECT_TYPES"
    and "\<forall>tbl. m_objectsData sg = Some tbl \<longrightarrow> tbl (t, l) = None"
  shows "fst (ShareGroup_getObjectData t l (ShareGroup_setObjectData t l d sg)) = d"
  using assms
  by (auto simp add: ShareGroup_getObjectData_def ShareGroup_setObjectData_def emplace_def Let_def
      split: option.splits)

text \<open>
  C3 at the failing input: the key (TEXTURE, 1) already holds the data 1; storing the data
  2 under it leaves the entry as it was, because \<^verbatim>\<open>emplace\<close> does not replace, and the
  following lookup still returns 1.
\<close>

theorem setObjectData_keeps_existing_entry:
  "fst (ShareGroup_getObjectData TEXTURE 1
          (ShareGroup_setObjectData TEXTURE 1 (Some (2::nat))
             (ShareGroup_setObjectData TEXTURE 1 (Some 1) ShareGroup_new))) = Some 1"
  by (simp add: ShareGroup_getObjectData_def ShareGroup_setObjectData_def emplace_def Let_def
      ShareGroup_new_def object_types)

subsection \<open>Lookups\<close>

text \<open>
  C10: the lookups \<^verbatim>\<open>getGlobalName\<close>, \<^verbatim>\<open>getLocalName\<close>, \<^verbatim>\<open>isObject\<close> and
  \<^verbatim>\<open>getObjectData\<close> return the ShareGroup they were given, with its name spaces, its
  object data (still unallocated if it was) and its texture reference counter unchanged.
\<close>

theorem lookups_keep_state:
  "snd (ShareGroup_getGlobalName t l sg) = sg \<and>
   snd (ShareGroup_getLocalName t g sg) = sg \<and>
   snd (ShareGroup_isObject t l sg) = sg \<and>
   snd (ShareGroup_getObjectData t l sg) = sg"
proof (intro conjI)
  show "snd (ShareGroup_getGlobalName t l sg) = sg"
    by (simp add: ShareGroup_getGlobalName_def)
  show "snd (ShareGroup_getLocalName t g sg) = sg"
    by (simp add: ShareGroup_getLocalName_def)
  show "snd (ShareGroup_isObject t l sg) = sg"
    by (simp add: ShareGroup_isObject_def)
  show "snd (ShareGroup_getObjectData t l sg) = sg"
    by (simp add: ShareGroup_getObjectData_def split: option.splits)
qed

subsection \<open>Object types out of range\<close>

text \<open>
  C4: with an object type at or beyond \<^verbatim>\<open>NUM_OBJECT_TYPES\<close>, every ShareGroup operation
  returns (no fault, no endless loop) its sentinel, 0, false or the empty pointer, and
  the group and the GlobalNameSpace come back unchanged.
\<close>

theorem out_of_range_type_is_noop:
  assumes "NUM_OBJECT_TYPES \<le> t"
  shows "ShareGroup_genName t l genLocal glGen (sg, gns) = Some (0, sg, gns) \<and>
         ShareGroup_genGlobalName t glGen (sg, gns) = (0, sg, gns) \<and>
         ShareGroup_getGlobalName t l sg = (0, sg) \<and>
         ShareGroup_getLocalName t g sg = (0, sg) \<and>
         ShareGroup_isObject t l sg = (False, sg) \<and>
         ShareGroup_deleteName t l (sg, gns) = Inr (sg, gns) \<and>
         ShareGroup_replaceGlobalName t l g (sg, gns) = Inr (sg, gns) \<and>
         ShareGroup_setObjectData t l d sg = sg \<and>
         ShareGroup_getObjectData t l sg = (None, sg)"
  using assms
  by (simp add: ShareGroup_genName_def ShareGroup_genGlobalName_def ShareGroup_lookups
      ShareGroup_deleteName_def ShareGroup_replaceGlobalName_def ShareGroup_setObjectData_def)

theorem out_of_range_type_is_noop_witness:
  "ShareGroup_genName 5 1 True 7 (ShareGroup_new :: nat ShareGroup, GlobalNameSpace_new) =
     Some (0, ShareGroup_new, GlobalNameSpace_new) \<and>
   ShareGroup_genGlobalName 5 7 (ShareGroup_new :: nat ShareGroup, GlobalNameSpace_new) =
     (0, ShareGroup_new, GlobalNameSpace_new) \<and>
   ShareGroup_getGlobalName 5 1 (ShareGroup_new :: nat ShareGroup) = (0, ShareGroup_new) \<and>
   ShareGroup_getLocalName 5 7 (ShareGroup_new :: nat ShareGroup) = (0, ShareGroup_new) \<and>
   ShareGroup_isObject 5 1 (ShareGroup_new :: nat ShareGroup) = (False, ShareGroup_new) \<and>
   ShareGroup_deleteName 5 1 (ShareGroup_new :: nat ShareGroup, GlobalNameSpace_new) =
     Inr (ShareGroup_new, GlobalNameSpace_new) \<and>
   ShareGroup_replaceGlobalName 5 1 7 (ShareGroup_new :: nat ShareGroup, GlobalNameSpace_new) =
     Inr (ShareGroup_new, GlobalNameSpace_new) \<and>
   ShareGroup_setObjectData 5 1 (Some 3) (ShareGroup_new :: nat ShareGroup) = ShareGroup_new \<and>
   ShareGroup_getObjectData 5 1 (ShareGroup_new :: nat ShareGroup) = (None, ShareGroup_new)"
  using out_of_range_type_is_noop[of 5 1 True 7 "ShareGroup_new :: nat ShareGroup"
      GlobalNameSpace_new 7 "Some 3"]
  by (simp add: NUM_OBJECT_TYPES_def)

subsection \<open>Releasing a texture reference that has no entry\<close>

text \<open>
  C9, as stated, fails in the state it singles out: while no texture reference was ever
  acquired, \<^verbatim>\<open>m_globalTextureRefCounter\<close> is null and the call stops at
  \<^verbatim>\<open>assert(m_globalTextureRefCounter)\<close>.
\<close>

theorem release_without_table_counterexample:
  "decTexRefCounterAndReleaseIf0 1 (ShareGroup_new :: nat ShareGroup, GlobalNameSpace_new) =
     Inl AssertionFailure"
  by (simp add: decTexRefCounterAndReleaseIf0_def ShareGroup_new_def)

text \<open>
  C9, amended: once the reference counter has been allocated (a texture reference was
  acquired at some time before), releasing a global name that has no entry in it returns
  0 and leaves the group and the GlobalNameSpace, with its record of deletions, unchanged.
\<close>

theorem release_without_entry:
  assumes "m_globalTextureRefCounter sg = Some tbl" and "tbl g = None"
  shows "decTexRefCounterAndReleaseIf0 g (sg, gns) = Inr (0, sg, gns)"
  using assms by (simp add: decTexRefCounterAndReleaseIf0_def)

theorem release_without_entry_witness:
  "decTexRefCounterAndReleaseIf0 2
     (snd (incTexRefCounter 1 (ShareGroup_new :: nat ShareGroup)), GlobalNameSpace_new) =
   Inr (0, snd (incTexRefCounter 1 ShareGroup_new), GlobalNameSpace_new)"
  using release_without_entry[of "snd (incTexRefCounter 1 (ShareGroup_new :: nat ShareGroup))"
      "[1 \<mapsto> 1]" 2 GlobalNameSpace_new]
  by (simp add: incTexRefCounter_def incTexRefCounterNoLock_def ShareGroup_new_def)

subsection \<open>The life of a texture reference\<close>

lemma refCounter_same:
  "m_globalTextureRefCounter sg = v \<Longrightarrow> sg\<lparr>m_globalTextureRefCounter := v\<rparr> = sg"
  by (cases sg) simp

lemma acquireTimes_count:
  assumes "m_globalTextureRefCounter sg = Some tbl" and "tbl g = Some c"
  shows "acquireTimes n g sg = sg\<lparr>m_globalTextureRefCounter := Some (tbl(g \<mapsto> c + of_nat n))\<rparr>"
  using assms
proof (induction n arbitrary: sg tbl c)
  case 0
  then have "tbl(g \<mapsto> c) = tbl" by (simp add: map_upd_triv)
  with 0 show ?case by (simp add: refCounter_same)
next
  case (Suc n)
  let ?sg = "sg\<lparr>m_globalTextureRefCounter := Some (tbl(g \<mapsto> c + 1))\<rparr>"
  have step: "snd (incTexRefCounter g sg) = ?sg"
    using Suc.prems by (simp add: incTexRefCounter_def incTexRefCounterNoLock_def Let_def)
  have p1: "m_globalTextureRefCounter ?sg = Some (tbl(g \<mapsto> c + 1))" by simp
  have p2: "(tbl(g \<mapsto> c + 1)) g = Some (c + 1)" by simp
  have "acquireTimes n g ?sg =
      ?sg\<lparr>m_globalTextureRefCounter := Some ((tbl(g \<mapsto> c + 1))(g \<mapsto> c + 1 + of_nat n))\<rparr>"
    by (rule Suc.IH[OF p1 p2])
  then show ?case by (simp add: step add.assoc del: fun_upd_apply)
qed

lemma releaseTimes_count:
  assumes "m_globalTextureRefCounter sg = Some tbl" and "tbl g = Some c" and "n < unat c"
  shows "releaseTimes n g (sg, gns) =
           Inr (sg\<lparr>m_globalTextureRefCounter := Some (tbl(g \<mapsto> c - of_nat n))\<rparr>, gns)"
  using assms
proof (induction n arbitrary: sg tbl c)
  case 0
  then have "tbl(g \<mapsto> c) = tbl" by (simp add: map_upd_triv)
  with 0 show ?case by (simp add: refCounter_same)
next
  case (Suc n)
  from Suc.prems have c0: "c \<noteq> 0" by (auto simp: unat_gt_0)
  then have pred: "unat (c - 1) = unat c - 1" by (simp add: unat_minus_one)
  with Suc.prems have c1: "c - 1 \<noteq> 0" and less: "n < unat (c - 1)"
    by (auto simp: unat_gt_0[symmetric])
  let ?sg = "sg\<lparr>m_globalTextureRefCounter := Some (tbl(g \<mapsto> c - 1))\<rparr>"
  have step: "decTexRefCounterAndReleaseIf0 g (sg, gns) = Inr (c - 1, ?sg, gns)"
    using Suc.prems c0 c1 by (simp add: decTexRefCounterAndReleaseIf0_def Let_def)
  have p1: "m_globalTextureRefCounter ?sg = Some (tbl(g \<mapsto> c - 1))" by simp
  have p2: "(tbl(g \<mapsto> c - 1)) g = Some (c - 1)" by simp
  have "releaseTimes n g (?sg, gns) =
      Inr (?sg\<lparr>m_globalTextureRefCounter := Some ((tbl(g \<mapsto> c - 1))(g \<mapsto> c - 1 - of_nat n))\<rparr>, gns)"
    by (rule Suc.IH[OF p1 p2 less])
  then show ?case by (simp add: step diff_diff_eq del: fun_upd_apply)
qed

lemma last_release:
  assumes "m_globalTextureRefCounter sg = Some tbl" and "tbl g = Some 1"
    and "m_deleteInitialized gns"
  shows "decTexRefCounterAndReleaseIf0 g (sg, gns) =
           Inr (0, sg\<lparr>m_globalTextureRefCounter := Some (tbl(g := None))\<rparr>,
                gns\<lparr>glDeleted := (TEXTURE, g) # glDeleted gns\<rparr>)"
  using assms
  by (simp add: decTexRefCounterAndReleaseIf0_def GlobalNameSpace_deleteName_def object_types)

lemma unat_one_plus:
  assumes "n < 2 ^ 64 - 1"
  shows "unat (1 + of_nat n :: 64 word) = Suc n"
proof -
  from assms have "Suc n < 2 ^ 64" by simp
  then have "unat (of_nat (Suc n) :: 64 word) = Suc n"
    by (subst unat_of_nat) simp
  then show ?thesis by simp
qed

text \<open>
  C1: let the global name \<open>g\<close> have no entry in the reference counter when
  \<^verbatim>\<open>genName(TEXTURE, ...)\<close> produces it (with \<open>genLocal\<close> set, some nonzero local name
  being free, so that the call returns). Then the call leaves the count of \<open>g\<close> at exactly
  1. After \<open>n\<close> further acquisitions, the first \<open>n\<close> releases delete nothing and bring the
  count back to 1, and the release after them returns 0, removes the entry of \<open>g\<close> and
  calls the deletion of (TEXTURE, \<open>g\<close>), the only one of the whole run. The count is a
  \<^verbatim>\<open>size_t\<close>, so \<open>n\<close> stays below the \<open>2 ^ 64 - 1\<close> acquisitions at which it would wrap.
\<close>

theorem texture_reference_lifecycle:
  assumes fresh: "texRefCount sg g = None"
    and ty: "m_type (m_nameSpace sg TEXTURE) = TEXTURE"
    and free: "genLocal \<longrightarrow> (\<exists>f. f \<noteq> 0 \<and> m_localToGlobalMap (m_nameSpace sg TEXTURE) f = None)"
    and n: "n < 2 ^ 64 - 1"
  shows "\<exists>l sg1 gns1 sg2 gns2 sg3 gns3.
     ShareGroup_genName TEXTURE p genLocal g (sg, gns) = Some (l, sg1, gns1) \<and>
     fst (ShareGroup_getGlobalName TEXTURE l sg1) = g \<and>
     texRefCount sg1 g = Some 1 \<and>
     glDeleted gns1 = glDeleted gns \<and>
     releaseTimes n g (acquireTimes n g sg1, gns1) = Inr (sg2, gns2) \<and>
     texRefCount sg2 g = Some 1 \<and>
     glDeleted gns2 = glDeleted gns \<and>
     decTexRefCounterAndReleaseIf0 g (sg2, gns2) = Inr (0, sg3, gns3) \<and>
     texRefCount sg3 g = None \<and>
     glDeleted gns3 = (TEXTURE, g) # glDeleted gns"
proof -
  let ?ns = "m_nameSpace sg TEXTURE"
  have "\<exists>l ns' gns'. NameSpace_genName p True genLocal g (?ns, gns) = Some (l, ns', gns')
      \<and> m_localToGlobalMap ns' l = Some g \<and> gns' = gns\<lparr>m_deleteInitialized := True\<rparr>"
  proof (cases genLocal)
    case True
    with free obtain f where "f \<noteq> 0" "m_localToGlobalMap ?ns f = None" by blast
    with genLocalLoop_returns[of f "m_localToGlobalMap ?ns" "m_nextName ?ns"]
    obtain r where "genLocalLoop (m_localToGlobalMap ?ns) (m_nextName ?ns) = Some r" by blast
    with True ty show ?thesis
      by (simp add: NameSpace_genName_def GlobalNameSpace_genName_def object_types)
  next
    case False
    with ty show ?thesis
      by (simp add: NameSpace_genName_def GlobalNameSpace_genName_def object_types)
  qed
  then obtain l ns' where
    gen: "NameSpace_genName p True genLocal g (?ns, gns) =
            Some (l, ns', gns\<lparr>m_deleteInitialized := True\<rparr>)"
    and lg: "m_localToGlobalMap ns' l = Some g"
    by blast
  define tbl0 where "tbl0 = (case m_globalTextureRefCounter sg of None \<Rightarrow> Map.empty | Some m \<Rightarrow> m)"
  have tbl0: "tbl0 g = None"
    using fresh by (simp add: tbl0_def texRefCount_def split: option.splits)
  define sg1 where "sg1 = sg\<lparr>m_nameSpace := (m_nameSpace sg)(TEXTURE := ns'),
                              m_globalTextureRefCounter := Some (tbl0(g \<mapsto> 1))\<rparr>"
  define gns1 where "gns1 = gns\<lparr>m_deleteInitialized := True\<rparr>"
  have call: "ShareGroup_genName TEXTURE p genLocal g (sg, gns) = Some (l, sg1, gns1)"
    using gen lg tbl0
    by (simp add: ShareGroup_genName_def NameSpace_getGlobalName_def incTexRefCounterNoLock_def
        Let_def sg1_def gns1_def tbl0_def object_types)
  have ctr: "m_globalTextureRefCounter sg1 = Some (tbl0(g \<mapsto> 1))"
    by (simp add: sg1_def)
  have entry: "(tbl0(g \<mapsto> 1)) g = Some 1" by simp
  have acq: "acquireTimes n g sg1 =
      sg1\<lparr>m_globalTextureRefCounter := Some ((tbl0(g \<mapsto> 1))(g \<mapsto> 1 + of_nat n))\<rparr>"
    by (rule acquireTimes_count[OF ctr entry])
  let ?sg2 = "sg1\<lparr>m_globalTextureRefCounter := Some (tbl0(g \<mapsto> 1 + of_nat n))\<rparr>"
  have ctr2: "m_globalTextureRefCounter ?sg2 = Some (tbl0(g \<mapsto> 1 + of_nat n))" by simp
  have entry2: "(tbl0(g \<mapsto> 1 + of_nat n)) g = Some (1 + of_nat n)" by simp
  have less: "n < unat (1 + of_nat n :: 64 word)" using unat_one_plus[OF n] by simp
  have rel: "releaseTimes n g (acquireTimes n g sg1, gns1) = Inr (sg1, gns1)"
    using releaseTimes_count[where g = g and tbl = "tbl0(g \<mapsto> 1 + of_nat n)"
        and c = "1 + of_nat n" and gns = gns1, OF ctr2 entry2 less]
    by (simp add: acq refCounter_same[OF ctr])
  have fin: "decTexRefCounterAndReleaseIf0 g (sg1, gns1) =
      Inr (0, sg1\<lparr>m_globalTextureRefCounter := Some ((tbl0(g \<mapsto> 1))(g := None))\<rparr>,
           gns1\<lparr>glDeleted := (TEXTURE, g) # glDeleted gns1\<rparr>)"
    by (rule last_release[OF ctr entry]) (simp add: gns1_def)
  have name: "fst (ShareGroup_getGlobalName TEXTURE l sg1) = g"
    using lg by (simp add: ShareGroup_getGlobalName_def NameSpace_getGlobalName_def sg1_def
        object_types)
  have one: "texRefCount sg1 g = Some 1"
    by (simp add: texRefCount_def sg1_def)
  have log1: "glDeleted gns1 = glDeleted gns"
    by (simp add: gns1_def)
  have gone: "texRefCount
      (sg1\<lparr>m_globalTextureRefCounter := Some ((tbl0(g \<mapsto> 1))(g := None))\<rparr>) g = None"
    by (simp add: texRefCount_def)
  have log3: "glDeleted (gns1\<lparr>glDeleted := (TEXTURE, g) # glDeleted gns1\<rparr>) =
      (TEXTURE, g) # glDeleted gns"
    by (simp add: gns1_def)
  from call name one log1 rel fin gone log3 show ?thesis
    by blast
qed

theorem texture_reference_lifecycle_witness:
  "\<exists>l sg1 gns1 sg2 gns2 sg3 gns3.
     ShareGroup_genName TEXTURE 0 True 7 (ShareGroup_new :: nat ShareGroup, GlobalNameSpace_new) =
       Some (l, sg1, gns1) \<and>
     fst (ShareGroup_getGlobalName TEXTURE l sg1) = 7 \<and>
     texRefCount sg1 7 = Some 1 \<and>
     glDeleted gns1 = [] \<and>
     releaseTimes 2 7 (acquireTimes 2 7 sg1, gns1) = Inr (sg2, gns2) \<and>
     texRefCount sg2 7 = Some 1 \<and>
     glDeleted gns2 = [] \<and>
     decTexRefCounterAndReleaseIf0 7 (sg2, gns2) = Inr (0, sg3, gns3) \<and>
     texRefCount sg3 7 = None \<and>
     glDeleted gns3 = [(TEXTURE, 7)]"
proof -
  have fresh: "texRefCount (ShareGroup_new :: nat ShareGroup) 7 = None"
    by (simp add: texRefCount_def ShareGroup_new_def)
  have ty: "m_type (m_nameSpace (ShareGroup_new :: nat ShareGroup) TEXTURE) = TEXTURE"
    by (simp add: ShareGroup_new_def NameSpace_new_def)
  have free: "True \<longrightarrow> (\<exists>f. f \<noteq> 0 \<and>
      m_localToGlobalMap (m_nameSpace (ShareGroup_new :: nat ShareGroup) TEXTURE) f = None)"
    by (simp add: ShareGroup_new_def NameSpace_new_def exI[of _ 1])
  have n: "(2::nat) < 2 ^ 64 - 1" by simp
  from texture_reference_lifecycle[OF fresh ty free n, of 0 GlobalNameSpace_new]
  show ?thesis by (simp add: GlobalNameSpace_new_def)
qed

subsection \<open>The two maps of a NameSpace\<close>

text \<open>
  C2, as stated, fails: generating twice under the same requested local name overwrites
  its entry in the local-to-global map and leaves the first global name in the
  global-to-local map.
\<close>

theorem inverse_maps_counterexample:
  "inverse_maps (NameSpace_new TEXTURE) \<and>
   last (observe [Generate 5 True False 7, Generate 5 True False 8]
           (NameSpace_new TEXTURE, GlobalNameSpace_new)) =
     (\<lparr>m_nextName = 0, m_localToGlobalMap = [5 \<mapsto> 8],
       m_globalToLocalMap = [7 \<mapsto> 5, 8 \<mapsto> 5], m_type = TEXTURE\<rparr>,
      \<lparr>m_deleteInitialized = True, glDeleted = []\<rparr>) \<and>
   \<not> inverse_maps \<lparr>m_nextName = 0, m_localToGlobalMap = [5 \<mapsto> 8],
       m_globalToLocalMap = [7 \<mapsto> 5, 8 \<mapsto> 5], m_type = TEXTURE\<rparr>"
proof (intro conjI)
  show "inverse_maps (NameSpace_new TEXTURE)"
    by (simp add: inverse_maps_def NameSpace_new_def)
  show "last (observe [Generate 5 True False 7, Generate 5 True False 8]
           (NameSpace_new TEXTURE, GlobalNameSpace_new)) =
     (\<lparr>m_nextName = 0, m_localToGlobalMap = [5 \<mapsto> 8],
       m_globalToLocalMap = [7 \<mapsto> 5, 8 \<mapsto> 5], m_type = TEXTURE\<rparr>,
      \<lparr>m_deleteInitialized = True, glDeleted = []\<rparr>)"
    by (simp add: NameSpace_genName_def NameSpace_new_def GlobalNameSpace_new_def
      GlobalNameSpace_genName_def object_types)
  show "\<not> inverse_maps \<lparr>m_nextName = 0, m_localToGlobalMap = [5 \<mapsto> 8],
       m_globalToLocalMap = [7 \<mapsto> 5, 8 \<mapsto> 5], m_type = TEXTURE\<rparr>"
  proof
    assume "inverse_maps \<lparr>m_nextName = 0, m_localToGlobalMap = [5 \<mapsto> 8],
       m_globalToLocalMap = [7 \<mapsto> 5, 8 \<mapsto> 5], m_type = TEXTURE\<rparr>"
    then have "(m_localToGlobalMap \<lparr>m_nextName = 0, m_localToGlobalMap = [5 \<mapsto> 8],
          m_globalToLocalMap = [7 \<mapsto> 5, 8 \<mapsto> 5], m_type = TEXTURE\<rparr> 5 = Some 7) =
        (m_globalToLocalMap \<lparr>m_nextName = 0, m_localToGlobalMap = [5 \<mapsto> 8],
          m_globalToLocalMap = [7 \<mapsto> 5, 8 \<mapsto> 5], m_type = TEXTURE\<rparr> 7 = Some 5)"
      unfolding inverse_maps_def by blast
    then show False by simp
  qed
qed

lemma genLocalLoop_result:
  assumes "genLocalLoop m nx = Some r"
  shows "r \<noteq> 0 \<and> m r = None"
proof (rule genLocalLoop.raw_induct[where P = "\<lambda>m nx r. r \<noteq> 0 \<and> m r = None", OF _ assms])
  fix f and m :: "ObjectLocalName \<rightharpoonup> GLuint" and nx r
  assume IH: "\<And>m nx r. f m nx = Some r \<Longrightarrow> r \<noteq> 0 \<and> m r = None"
    and body: "(let localName = nx + 1
                in if localName = 0 \<or> m localName \<noteq> None then f m localName
                   else Some localName) = Some r"
  show "r \<noteq> 0 \<and> m r = None"
  proof (cases "nx + 1 = 0 \<or> m (nx + 1) \<noteq> None")
    case True
    with body have "f m (nx + 1) = Some r" by (simp add: Let_def)
    then show ?thesis by (rule IH)
  next
    case False
    with body show ?thesis by (auto simp: Let_def)
  qed
qed

lemma inverse_add_pair:
  assumes "inverse_maps ns" and "pairs_cleanly ns l g"
  shows "inverse_maps
           (ns\<lparr>m_localToGlobalMap := (m_localToGlobalMap ns)(l \<mapsto> g),
               m_globalToLocalMap := (m_globalToLocalMap ns)(g \<mapsto> l)\<rparr>)"
proof (unfold inverse_maps_def, intro allI)
  fix l' g'
  from assms(1) have inv:
    "\<And>a b. (m_localToGlobalMap ns a = Some b) = (m_globalToLocalMap ns b = Some a)"
    by (simp add: inverse_maps_def)
  from assms(2) have c1: "m_localToGlobalMap ns l = None \<or> m_localToGlobalMap ns l = Some g"
    and c2: "m_globalToLocalMap ns g = None \<or> m_globalToLocalMap ns g = Some l"
    by (simp_all add: pairs_cleanly_def)
  show "(m_localToGlobalMap
           (ns\<lparr>m_localToGlobalMap := (m_localToGlobalMap ns)(l \<mapsto> g),
               m_globalToLocalMap := (m_globalToLocalMap ns)(g \<mapsto> l)\<rparr>) l' = Some g') =
        (m_globalToLocalMap
           (ns\<lparr>m_localToGlobalMap := (m_localToGlobalMap ns)(l \<mapsto> g),
               m_globalToLocalMap := (m_globalToLocalMap ns)(g \<mapsto> l)\<rparr>) g' = Some l')"
    using inv[of l g'] inv[of l' g] inv[of l' g'] c1 c2 by auto
qed

lemma genName_keeps_inverse:
  assumes inv: "inverse_maps ns"
    and clean: "clean_op (Generate l genGlobal genLocal glGen) (ns, gns)"
    and call: "NameSpace_genName l genGlobal genLocal glGen (ns, gns) = Some (r, ns', gns')"
  shows "inverse_maps ns'"
proof (cases genGlobal)
  case False
  with call inv show ?thesis
    by (auto simp: NameSpace_genName_def inverse_maps_def Let_def split: option.splits if_splits)
next
  case True
  define g where "g = fst (GlobalNameSpace_genName (m_type ns) glGen gns)"
  show ?thesis
  proof (cases genLocal)
    case gl: True
    from call gl obtain r' where loop: "genLocalLoop (m_localToGlobalMap ns) (m_nextName ns) = Some r'"
      by (auto simp: NameSpace_genName_def split: option.splits)
    from genLocalLoop_result[OF loop] have fresh: "m_localToGlobalMap ns r' = None" by simp
    from clean True gl have "m_globalToLocalMap ns g = None" by (simp add: g_def)
    with fresh have pc: "pairs_cleanly (ns\<lparr>m_nextName := r'\<rparr>) r' g" by (simp add: pairs_cleanly_def)
    from inv have "inverse_maps (ns\<lparr>m_nextName := r'\<rparr>)" by (simp add: inverse_maps_def)
    from inverse_add_pair[OF this pc] call True gl loop show ?thesis
      by (auto simp: NameSpace_genName_def Let_def g_def split: prod.splits)
  next
    case gl: False
    from clean True gl have pc: "pairs_cleanly ns l g" by (simp add: g_def)
    from inverse_add_pair[OF inv pc] call True gl show ?thesis
      by (auto simp: NameSpace_genName_def Let_def g_def split: prod.splits)
  qed
qed

lemma deleteName_keeps_inverse:
  assumes inv: "inverse_maps ns"
    and call: "NameSpace_deleteName l (ns, gns) = Inr (ns', gns')"
  shows "inverse_maps ns'"
proof (cases "m_localToGlobalMap ns l")
  case None
  with call inv show ?thesis by (simp add: NameSpace_deleteName_def)
next
  case (Some g)
  with call have ns': "ns' = ns\<lparr>m_globalToLocalMap := (m_globalToLocalMap ns)(g := None),
                      m_localToGlobalMap := (m_localToGlobalMap ns)(l := None)\<rparr>"
    by (auto simp: NameSpace_deleteName_def split: sum.splits if_splits)
  from inv have inv':
    "\<And>a b. (m_localToGlobalMap ns a = Some b) = (m_globalToLocalMap ns b = Some a)"
    by (simp add: inverse_maps_def)
  show ?thesis
  proof (unfold inverse_maps_def ns', intro allI)
    fix l' g'
    show "(m_localToGlobalMap
            (ns\<lparr>m_globalToLocalMap := (m_globalToLocalMap ns)(g := None),
                m_localToGlobalMap := (m_localToGlobalMap ns)(l := None)\<rparr>) l' = Some g') =
          (m_globalToLocalMap
            (ns\<lparr>m_globalToLocalMap := (m_globalToLocalMap ns)(g := None),
                m_localToGlobalMap := (m_localToGlobalMap ns)(l := None)\<rparr>) g' = Some l')"
      using inv'[of l g'] inv'[of l' g] inv'[of l' g'] Some by auto
  qed
qed

lemma replaceGlobalName_keeps_inverse:
  assumes inv: "inverse_maps ns"
    and clean: "clean_op (Rebind l g) (ns, gns)"
    and call: "NameSpace_replaceGlobalName l g (ns, gns) = Inr (ns', gns')"
  shows "inverse_maps ns'"
proof (cases "m_localToGlobalMap ns l")
  case None
  with call inv show ?thesis by (simp add: NameSpace_replaceGlobalName_def)
next
  case (Some g0)
  with call have ns': "ns' = ns\<lparr>m_localToGlobalMap := (m_localToGlobalMap ns)(l \<mapsto> g),
      m_globalToLocalMap := emplace ((m_globalToLocalMap ns)(g0 := None)) g l\<rparr>"
    by (auto simp: NameSpace_replaceGlobalName_def split: sum.splits if_splits)
  from clean Some have c: "m_globalToLocalMap ns g = None \<or> m_globalToLocalMap ns g = Some l"
    by simp
  from inv Some have bk: "m_globalToLocalMap ns g0 = Some l" by (simp add: inverse_maps_def)
  from inv have inv':
    "\<And>a b. (m_localToGlobalMap ns a = Some b) = (m_globalToLocalMap ns b = Some a)"
    by (simp add: inverse_maps_def)
  have g2l: "emplace ((m_globalToLocalMap ns)(g0 := None)) g l =
      ((m_globalToLocalMap ns)(g0 := None))(g \<mapsto> l)"
  proof (cases "g = g0")
    case True then show ?thesis by (simp add: emplace_def)
  next
    case False
    with c inv'[of l g] Some have "m_globalToLocalMap ns g = None"
      by auto
    with False show ?thesis by (simp add: emplace_def)
  qed
  show ?thesis
  proof (unfold inverse_maps_def ns' g2l, intro allI)
    fix l' g'
    show "(m_localToGlobalMap
            (ns\<lparr>m_localToGlobalMap := (m_localToGlobalMap ns)(l \<mapsto> g),
                m_globalToLocalMap := ((m_globalToLocalMap ns)(g0 := None))(g \<mapsto> l)\<rparr>) l' =
           Some g') =
          (m_globalToLocalMap
            (ns\<lparr>m_localToGlobalMap := (m_localToGlobalMap ns)(l \<mapsto> g),
                m_globalToLocalMap := ((m_globalToLocalMap ns)(g0 := None))(g \<mapsto> l)\<rparr>) g' =
           Some l')"
      using inv'[of l g'] inv'[of l' g] inv'[of l' g'] inv'[of l' g0] inv'[of l g0] Some c
      by auto
  qed
qed

lemma NameOp_keeps_inverse:
  assumes inv: "inverse_maps (fst s)" and clean: "clean_op op s"
    and app: "NameOp_apply op s = Some s'"
  shows "inverse_maps (fst s')"
proof -
  obtain ns gns where s: "s = (ns, gns)" by (cases s)
  obtain ns' gns' where s': "s' = (ns', gns')" by (cases s')
  from inv s have inv': "inverse_maps ns" by simp
  show ?thesis
  proof (cases op)
    case (Generate l gg gl glGen)
    with app s s' obtain r where
      call: "NameSpace_genName l gg gl glGen (ns, gns) = Some (r, ns', gns')"
      by (simp split: option.splits prod.splits)
    from clean Generate s have "clean_op (Generate l gg gl glGen) (ns, gns)" by simp
    from genName_keeps_inverse[OF inv' this call] s' show ?thesis by simp
  next
    case (Delete l)
    with app s s' have call: "NameSpace_deleteName l (ns, gns) = Inr (ns', gns')"
      by (simp split: sum.splits)
    from deleteName_keeps_inverse[OF inv' call] s' show ?thesis by simp
  next
    case (Rebind l g)
    with app s s' have call: "NameSpace_replaceGlobalName l g (ns, gns) = Inr (ns', gns')"
      by (simp split: sum.splits)
    from clean Rebind s have "clean_op (Rebind l g) (ns, gns)" by simp
    from replaceGlobalName_keeps_inverse[OF inv' this call] s' show ?thesis by simp
  qed
qed

text \<open>
  C2, amended: start with the two maps inverse of each other and run any sequence of
  generate, delete and rebind operations in which every pairing is clean: a generate with
  \<open>genGlobal\<close> and \<open>genLocal\<close> receives a global name that is not a key of the
  global-to-local map; a generate with \<open>genGlobal\<close> and a requested local name finds that
  local name and the global name it receives either without entry or already paired with
  each other; a rebind of a present local name uses a global name that has no entry for
  another local name. Then the maps are inverse of each other at every observation point.
  Maps have one entry per key by construction.
\<close>

theorem clean_runs_keep_inverse:
  assumes "inverse_maps (fst s)" and "clean_run ops s"
  shows "\<forall>s' \<in> set (observe ops s). inverse_maps (fst s')"
  using assms
proof (induction ops arbitrary: s)
  case Nil
  then show ?case by simp
next
  case (Cons op ops)
  show ?case
  proof (cases "NameOp_apply op s")
    case None
    with Cons.prems show ?thesis by simp
  next
    case (Some s1)
    from Cons.prems have "clean_op op s" by simp
    from NameOp_keeps_inverse[OF Cons.prems(1) this Some] have i1: "inverse_maps (fst s1)" .
    from Cons.prems Some have "clean_run ops s1" by simp
    from Cons.IH[OF i1 this] Cons.prems(1) Some show ?thesis by simp
  qed
qed

lemma genLocalLoop_next_free:
  "nx + 1 \<noteq> 0 \<Longrightarrow> m (nx + 1) = None \<Longrightarrow> genLocalLoop m nx = Some (nx + 1)"
  by (subst genLocalLoop.simps) (simp add: Let_def)

theorem clean_runs_keep_inverse_witness:
  "inverse_maps (NameSpace_new FRAMEBUFFER) \<and>
   clean_run [Generate 0 True True 7, Generate 5 True False 8, Rebind 5 9, Delete 1]
     (NameSpace_new FRAMEBUFFER, GlobalNameSpace_new) \<and>
   length (observe [Generate 0 True True 7, Generate 5 True False 8, Rebind 5 9, Delete 1]
     (NameSpace_new FRAMEBUFFER, GlobalNameSpace_new)) = 5 \<and>
   list_all (\<lambda>s'. inverse_maps (fst s'))
     (observe [Generate 0 True True 7, Generate 5 True False 8, Rebind 5 9, Delete 1]
        (NameSpace_new FRAMEBUFFER, GlobalNameSpace_new))"
proof -
  let ?ops = "[Generate 0 True True 7, Generate 5 True False 8, Rebind 5 9, Delete 1]"
  let ?s = "(NameSpace_new FRAMEBUFFER, GlobalNameSpace_new)"
  have inv: "inverse_maps (fst ?s)"
    by (simp add: inverse_maps_def NameSpace_new_def)
  have clean: "clean_run ?ops ?s"
    by (simp add: NameSpace_genName_def NameSpace_replaceGlobalName_def NameSpace_deleteName_def
        GlobalNameSpace_genName_def GlobalNameSpace_deleteName_def genLocalLoop_next_free
        pairs_cleanly_def emplace_def NameSpace_new_def GlobalNameSpace_new_def object_types)
  have len: "length (observe ?ops ?s) = 5"
    by (simp add: NameSpace_genName_def NameSpace_replaceGlobalName_def NameSpace_deleteName_def
        GlobalNameSpace_genName_def GlobalNameSpace_deleteName_def genLocalLoop_next_free
        emplace_def NameSpace_new_def GlobalNameSpace_new_def object_types)
  from clean_runs_keep_inverse[OF inv clean]
  have "list_all (\<lambda>s'. inverse_maps (fst s')) (observe ?ops ?s)"
    by (simp only: list_all_iff)
  with inv clean len show ?thesis by simp
qed

subsection \<open>Deleting a name\<close>

lemma objectsData_same: "m_objectsData sg = v \<Longrightarrow> sg\<lparr>m_objectsData := v\<rparr> = sg"
  by (cases sg) simp

text \<open>
  C6, as stated, fails for the object type SHADER: \<^verbatim>\<open>GlobalNameSpace::deleteName\<close> does
  nothing for it, so deleting a present shader name reaches no deletion of the dispatcher.
\<close>

theorem deleteName_shader_counterexample:
  "(case ShareGroup_genName SHADER 1 False 9 (ShareGroup_new :: nat ShareGroup, GlobalNameSpace_new) of
      None \<Rightarrow> False
    | Some (l, sg, gns) \<Rightarrow>
        l = 1 \<and> fst (ShareGroup_isObject SHADER 1 sg) \<and> glDeleted gns = [] \<and>
        (case ShareGroup_deleteName SHADER 1 (sg, gns) of
           Inl e \<Rightarrow> False
         | Inr (sg', gns') \<Rightarrow> \<not> fst (ShareGroup_isObject SHADER 1 sg') \<and> glDeleted gns' = []))"
  by (simp add: ShareGroup_genName_def NameSpace_genName_def GlobalNameSpace_genName_def
      ShareGroup_isObject_def NameSpace_isObject_def ShareGroup_deleteName_def
      NameSpace_deleteName_def GlobalNameSpace_deleteName_def ShareGroup_new_def
      NameSpace_new_def GlobalNameSpace_new_def object_types)

text \<open>
  It fails as well where the local name is absent but has object data: the data is erased.
\<close>

lemma deleteName_absent_erases_data:
  "(case ShareGroup_deleteName TEXTURE 1
           (ShareGroup_setObjectData TEXTURE 1 (Some (5::nat)) ShareGroup_new, GlobalNameSpace_new) of
      Inl e \<Rightarrow> False
    | Inr (sg', gns') \<Rightarrow>
        fst (ShareGroup_getObjectData TEXTURE 1
               (ShareGroup_setObjectData TEXTURE 1 (Some 5) ShareGroup_new)) = Some 5 \<and>
        fst (ShareGroup_getObjectData TEXTURE 1 sg') = None)"
  by (simp add: ShareGroup_deleteName_def NameSpace_deleteName_def ShareGroup_setObjectData_def
      ShareGroup_getObjectData_def emplace_def ShareGroup_new_def NameSpace_new_def object_types)

text \<open>
  C6, amended: for an object type in range whose NameSpace carries that type,
  \<^verbatim>\<open>deleteName(type, L)\<close> does the following. When \<open>L\<close> is absent from the name table,
  the name spaces, the reference counter and the GlobalNameSpace stay as they are and no
  deletion is called; only an object data entry for (type, \<open>L\<close>) is erased, so the whole
  state is unchanged when there is none. When \<open>L\<close> is present with global name \<open>g\<close> (and,
  for the types that reach the dispatcher, its deletion entries are bound), the call
  removes \<open>L\<close> from the local-to-global map and \<open>g\<close> from the global-to-local map, leaves
  the other name spaces and the reference counter alone, and erases the object data of
  (type, \<open>L\<close>); it calls the deletion of (type, \<open>g\<close>) for VERTEXBUFFER, RENDERBUFFER and
  FRAMEBUFFER, and no deletion for TEXTURE and for SHADER.
\<close>

theorem deleteName_effect:
  assumes t: "t < NUM_OBJECT_TYPES" and ty: "m_type (m_nameSpace sg t) = t"
  shows
    "(m_localToGlobalMap (m_nameSpace sg t) l = None \<longrightarrow>
        ShareGroup_deleteName t l (sg, gns) =
          Inr (sg\<lparr>m_objectsData :=
                    (case m_objectsData sg of
                       None \<Rightarrow> None
                     | Some tbl \<Rightarrow> Some (tbl((t, l) := None)))\<rparr>, gns)) \<and>
     (m_localToGlobalMap (m_nameSpace sg t) l = None \<longrightarrow>
        (\<forall>tbl. m_objectsData sg = Some tbl \<longrightarrow> tbl (t, l) = None) \<longrightarrow>
        ShareGroup_deleteName t l (sg, gns) = Inr (sg, gns)) \<and>
     (\<forall>g. m_localToGlobalMap (m_nameSpace sg t) l = Some g \<longrightarrow>
        (t = TEXTURE \<or> t = SHADER \<or> m_deleteInitialized gns) \<longrightarrow>
        (\<exists>sg' gns'.
           ShareGroup_deleteName t l (sg, gns) = Inr (sg', gns') \<and>
           m_localToGlobalMap (m_nameSpace sg' t) = (m_localToGlobalMap (m_nameSpace sg t))(l := None) \<and>
           m_globalToLocalMap (m_nameSpace sg' t) = (m_globalToLocalMap (m_nameSpace sg t))(g := None) \<and>
           (\<forall>t'. t' \<noteq> t \<longrightarrow> m_nameSpace sg' t' = m_nameSpace sg t') \<and>
           fst (ShareGroup_getObjectData t l sg') = None \<and>
           m_globalTextureRefCounter sg' = m_globalTextureRefCounter sg \<and>
           m_deleteInitialized gns' = m_deleteInitialized gns \<and>
           glDeleted gns' =
             (if t = TEXTURE \<or> t = SHADER then glDeleted gns else (t, g) # glDeleted gns)))"
proof (intro conjI impI allI)
  assume "m_localToGlobalMap (m_nameSpace sg t) l = None"
  then show "ShareGroup_deleteName t l (sg, gns) =
          Inr (sg\<lparr>m_objectsData :=
                    (case m_objectsData sg of
                       None \<Rightarrow> None
                     | Some tbl \<Rightarrow> Some (tbl((t, l) := None)))\<rparr>, gns)"
    using t by (simp add: ShareGroup_deleteName_def NameSpace_deleteName_def)
next
  assume "m_localToGlobalMap (m_nameSpace sg t) l = None"
    and "\<forall>tbl. m_objectsData sg = Some tbl \<longrightarrow> tbl (t, l) = None"
  then show "ShareGroup_deleteName t l (sg, gns) = Inr (sg, gns)"
    using t by (cases "m_objectsData sg")
      (simp_all add: ShareGroup_deleteName_def NameSpace_deleteName_def objectsData_same
         fun_upd_idem)
next
  fix g
  assume g: "m_localToGlobalMap (m_nameSpace sg t) l = Some g"
    and ok: "t = TEXTURE \<or> t = SHADER \<or> m_deleteInitialized gns"
  have del: "t \<noteq> TEXTURE \<Longrightarrow> GlobalNameSpace_deleteName t g gns =
      Inr (if t = SHADER then gns else gns\<lparr>glDeleted := (t, g) # glDeleted gns\<rparr>)"
    using t ok by (auto simp add: GlobalNameSpace_deleteName_def)
  show "\<exists>sg' gns'.
           ShareGroup_deleteName t l (sg, gns) = Inr (sg', gns') \<and>
           m_localToGlobalMap (m_nameSpace sg' t) = (m_localToGlobalMap (m_nameSpace sg t))(l := None) \<and>
           m_globalToLocalMap (m_nameSpace sg' t) = (m_globalToLocalMap (m_nameSpace sg t))(g := None) \<and>
           (\<forall>t'. t' \<noteq> t \<longrightarrow> m_nameSpace sg' t' = m_nameSpace sg t') \<and>
           fst (ShareGroup_getObjectData t l sg') = None \<and>
           m_globalTextureRefCounter sg' = m_globalTextureRefCounter sg \<and>
           m_deleteInitialized gns' = m_deleteInitialized gns \<and>
           glDeleted gns' =
             (if t = TEXTURE \<or> t = SHADER then glDeleted gns else (t, g) # glDeleted gns)"
  proof (cases "t = TEXTURE")
    case True
    then show ?thesis
      using t g ty
      by (simp add: ShareGroup_deleteName_def NameSpace_deleteName_def
          ShareGroup_getObjectData_def split: option.splits)
  next
    case False
    then show ?thesis
      using t g ty del
      by (simp add: ShareGroup_deleteName_def NameSpace_deleteName_def
          ShareGroup_getObjectData_def split: option.splits)
  qed
qed

theorem deleteName_effect_witness:
  "ShareGroup_deleteName FRAMEBUFFER 2
     (ShareGroup_new\<lparr>m_nameSpace := NameSpace_new(FRAMEBUFFER :=
          \<lparr>m_nextName = 0, m_localToGlobalMap = [1 \<mapsto> 9], m_globalToLocalMap = [9 \<mapsto> 1],
           m_type = FRAMEBUFFER\<rparr>)\<rparr> :: nat ShareGroup,
      \<lparr>m_deleteInitialized = True, glDeleted = []\<rparr>) =
   Inr (ShareGroup_new\<lparr>m_nameSpace := NameSpace_new(FRAMEBUFFER :=
          \<lparr>m_nextName = 0, m_localToGlobalMap = [1 \<mapsto> 9], m_globalToLocalMap = [9 \<mapsto> 1],
           m_type = FRAMEBUFFER\<rparr>)\<rparr>,
        \<lparr>m_deleteInitialized = True, glDeleted = []\<rparr>) \<and>
   (\<exists>sg' gns'.
      ShareGroup_deleteName FRAMEBUFFER 1
        (ShareGroup_new\<lparr>m_nameSpace := NameSpace_new(FRAMEBUFFER :=
            \<lparr>m_nextName = 0, m_localToGlobalMap = [1 \<mapsto> 9], m_globalToLocalMap = [9 \<mapsto> 1],
             m_type = FRAMEBUFFER\<rparr>)\<rparr> :: nat ShareGroup,
         \<lparr>m_deleteInitialized = True, glDeleted = []\<rparr>) = Inr (sg', gns') \<and>
      m_localToGlobalMap (m_nameSpace sg' FRAMEBUFFER) 1 = None \<and>
      m_globalToLocalMap (m_nameSpace sg' FRAMEBUFFER) 9 = None \<and>
      fst (ShareGroup_getObjectData FRAMEBUFFER 1 sg') = None \<and>
      glDeleted gns' = [(FRAMEBUFFER, 9)])"
proof -
  let ?sg = "ShareGroup_new\<lparr>m_nameSpace := NameSpace_new(FRAMEBUFFER :=
          \<lparr>m_nextName = 0, m_localToGlobalMap = [1 \<mapsto> 9], m_globalToLocalMap = [9 \<mapsto> 1],
           m_type = FRAMEBUFFER\<rparr>)\<rparr> :: nat ShareGroup"
  let ?gns = "\<lparr>m_deleteInitialized = True, glDeleted = []\<rparr>"
  have t: "FRAMEBUFFER < NUM_OBJECT_TYPES" by (simp add: object_types)
  have ty: "m_type (m_nameSpace ?sg FRAMEBUFFER) = FRAMEBUFFER" by simp
  have absent: "m_localToGlobalMap (m_nameSpace ?sg FRAMEBUFFER) 2 = None" by simp
  have nodata: "\<forall>tbl. m_objectsData ?sg = Some tbl \<longrightarrow> tbl (FRAMEBUFFER, 2) = None"
    by (simp add: ShareGroup_new_def)
  have present: "m_localToGlobalMap (m_nameSpace ?sg FRAMEBUFFER) 1 = Some 9" by simp
  have bound: "FRAMEBUFFER = TEXTURE \<or> FRAMEBUFFER = SHADER \<or> m_deleteInitialized ?gns" by simp
  have shape: "\<not> (FRAMEBUFFER = TEXTURE \<or> FRAMEBUFFER = SHADER)" by (simp add: object_types)
  from deleteName_effect[OF t ty, of 2 ?gns] absent nodata
  have A: "ShareGroup_deleteName FRAMEBUFFER 2 (?sg, ?gns) = Inr (?sg, ?gns)"
    by blast
  from deleteName_effect[OF t ty, of 1 ?gns] present bound
  obtain sg' gns' where
    call: "ShareGroup_deleteName FRAMEBUFFER 1 (?sg, ?gns) = Inr (sg', gns')"
    and l: "m_localToGlobalMap (m_nameSpace sg' FRAMEBUFFER) =
              (m_localToGlobalMap (m_nameSpace ?sg FRAMEBUFFER))(1 := None)"
    and g: "m_globalToLocalMap (m_nameSpace sg' FRAMEBUFFER) =
              (m_globalToLocalMap (m_nameSpace ?sg FRAMEBUFFER))(9 := None)"
    and d: "fst (ShareGroup_getObjectData FRAMEBUFFER 1 sg') = None"
    and log: "glDeleted gns' =
       (if FRAMEBUFFER = TEXTURE \<or> FRAMEBUFFER = SHADER then glDeleted ?gns
        else (FRAMEBUFFER, 9) # glDeleted ?gns)"
    by blast
  from l have l': "m_localToGlobalMap (m_nameSpace sg' FRAMEBUFFER) 1 = None" by simp
  from g have g': "m_globalToLocalMap (m_nameSpace sg' FRAMEBUFFER) 9 = None" by simp
  from log shape have log': "glDeleted gns' = [(FRAMEBUFFER, 9)]" by simp
  from A call l' g' d log' show ?thesis by blast
qed

subsection \<open>Attaching and deleting share groups\<close>

text \<open>
  C5: \<^verbatim>\<open>attachShareGroup(key, existing)\<close> returns the empty pointer and changes nothing
  when \<open>existing\<close> is not registered. When \<open>existing\<close> is registered and \<open>key\<close> is not, it
  returns the pointer registered under \<open>existing\<close> and registers the same pointer, hence
  the same ShareGroup object, under \<open>key\<close>; the other entries and the objects stay as
  they are. When both are registered, it returns the pointer registered under
  \<open>existing\<close> and leaves \<^verbatim>\<open>m_groups\<close>, the entry of \<open>key\<close> included, as it was.
\<close>

theorem attachShareGroup_cases:
  "(map_of (m_groups mgr) e = None \<longrightarrow> attachShareGroup k e mgr = (None, mgr)) \<and>
   (\<forall>a. map_of (m_groups mgr) e = Some a \<longrightarrow> map_of (m_groups mgr) k = None \<longrightarrow>
      fst (attachShareGroup k e mgr) = Some a \<and>
      map_of (m_groups (snd (attachShareGroup k e mgr))) k = Some a \<and>
      map_of (m_groups (snd (attachShareGroup k e mgr))) e = Some a \<and>
      (\<forall>k'. k' \<noteq> k \<longrightarrow>
         map_of (m_groups (snd (attachShareGroup k e mgr))) k' = map_of (m_groups mgr) k') \<and>
      shareGroups (snd (attachShareGroup k e mgr)) = shareGroups mgr) \<and>
   (\<forall>a b. map_of (m_groups mgr) e = Some a \<longrightarrow> map_of (m_groups mgr) k = Some b \<longrightarrow>
      fst (attachShareGroup k e mgr) = Some a \<and>
      m_groups (snd (attachShareGroup k e mgr)) = m_groups mgr \<and>
      shareGroups (snd (attachShareGroup k e mgr)) = shareGroups mgr)"
  by (auto simp add: attachShareGroup_def handOut_def map_add_def split: option.splits)

theorem attachShareGroup_cases_witness:
  "attachShareGroup 2 3 (snd (createShareGroup 1 (ObjectNameManager_new :: nat ObjectNameManager))) =
     (None, snd (createShareGroup 1 ObjectNameManager_new)) \<and>
   fst (attachShareGroup 2 1 (snd (createShareGroup 1 (ObjectNameManager_new :: nat ObjectNameManager)))) =
     Some 0 \<and>
   map_of (m_groups (snd (attachShareGroup 2 1
     (snd (createShareGroup 1 (ObjectNameManager_new :: nat ObjectNameManager)))))) 2 = Some 0 \<and>
   map_of (m_groups (snd (attachShareGroup 2 1
     (snd (createShareGroup 1 (ObjectNameManager_new :: nat ObjectNameManager)))))) 1 = Some 0 \<and>
   fst (attachShareGroup 1 1 (snd (createShareGroup 1 (ObjectNameManager_new :: nat ObjectNameManager)))) =
     Some 0 \<and>
   m_groups (snd (attachShareGroup 1 1
     (snd (createShareGroup 1 (ObjectNameManager_new :: nat ObjectNameManager))))) = [(1, 0)]"
proof -
  let ?mgr = "snd (createShareGroup 1 (ObjectNameManager_new :: nat ObjectNameManager))"
  have groups: "m_groups ?mgr = [(1, 0)]"
    by (simp add: createShareGroup_def ObjectNameManager_new_def handOut_def Let_def)
  from attachShareGroup_cases[of ?mgr 3 2] attachShareGroup_cases[of ?mgr 1 2]
    attachShareGroup_cases[of ?mgr 1 1]
  show ?thesis by (simp add: groups)
qed

lemma map_of_filter_key:
  "map_of (filter (\<lambda>(k, a). k \<noteq> K) xs) K' = (if K' = K then None else map_of xs K')"
  by (induction xs) auto

lemma still_in_range:
  assumes "map_of xs K' = Some b" "K' \<noteq> K"
  shows "b \<in> snd ` set (filter (\<lambda>(k, a). k \<noteq> K) xs)"
proof -
  from assms have "(K', b) \<in> set (filter (\<lambda>(k, a). k \<noteq> K) xs)"
    by (auto dest: map_of_SomeD)
  then show ?thesis by force
qed

text \<open>
  C7: for a registered key \<open>K\<close>, after \<^verbatim>\<open>deleteShareGroup(K)\<close> the lookup of \<open>K\<close> returns
  the empty pointer; every other key keeps its entry; and a key that shared the
  ShareGroup of \<open>K\<close> (like any other key) still reaches the same object, which was not
  destroyed and holds the state it held before.
\<close>

theorem deleteShareGroup_effect:
  assumes "map_of (m_groups mgr) K = Some a"
  shows "getShareGroup K (deleteShareGroup K mgr) = (None, deleteShareGroup K mgr) \<and>
     (\<forall>K'. K' \<noteq> K \<longrightarrow>
        map_of (m_groups (deleteShareGroup K mgr)) K' = map_of (m_groups mgr) K') \<and>
     (\<forall>K' b. K' \<noteq> K \<longrightarrow> map_of (m_groups mgr) K' = Some b \<longrightarrow>
        fst (getShareGroup K' (deleteShareGroup K mgr)) = Some b \<and>
        shareGroups (deleteShareGroup K mgr) b = shareGroups mgr b)"
proof -
  have groups: "m_groups (deleteShareGroup K mgr) = filter (\<lambda>(k, a). k \<noteq> K) (m_groups mgr)"
    using assms by (simp add: deleteShareGroup_def reclaim_def)
  have keep: "shareGroups (deleteShareGroup K mgr) b = shareGroups mgr b"
    if "map_of (m_groups mgr) K' = Some b" "K' \<noteq> K" for K' b
    using assms still_in_range[OF that]
    by (auto simp add: deleteShareGroup_def reclaim_def owned_def)
  show ?thesis
    using keep by (simp add: getShareGroup_def groups map_of_filter_key)
qed

theorem deleteShareGroup_effect_witness:
  "getShareGroup 1
     (deleteShareGroup 1
        \<lparr>m_groups = [(1, 0), (2, 0)], shareGroups = [0 \<mapsto> ShareGroup_new :: nat ShareGroup],
         held = (\<lambda>a. 0), nextAddress = 1\<rparr>) =
   (None,
    deleteShareGroup 1
      \<lparr>m_groups = [(1, 0), (2, 0)], shareGroups = [0 \<mapsto> ShareGroup_new],
       held = (\<lambda>a. 0), nextAddress = 1\<rparr>) \<and>
   map_of (m_groups
     (deleteShareGroup 1
        \<lparr>m_groups = [(1, 0), (2, 0)], shareGroups = [0 \<mapsto> ShareGroup_new :: nat ShareGroup],
         held = (\<lambda>a. 0), nextAddress = 1\<rparr>)) 2 = Some 0 \<and>
   fst (getShareGroup 2
     (deleteShareGroup 1
        \<lparr>m_groups = [(1, 0), (2, 0)], shareGroups = [0 \<mapsto> ShareGroup_new :: nat ShareGroup],
         held = (\<lambda>a. 0), nextAddress = 1\<rparr>)) = Some 0 \<and>
   shareGroups
     (deleteShareGroup 1
        \<lparr>m_groups = [(1, 0), (2, 0)], shareGroups = [0 \<mapsto> ShareGroup_new :: nat ShareGroup],
         held = (\<lambda>a. 0), nextAddress = 1\<rparr>) 0 = Some ShareGroup_new"
proof -
  let ?mgr = "\<lparr>m_groups = [(1, 0), (2, 0)], shareGroups = [0 \<mapsto> ShareGroup_new :: nat ShareGroup],
        held = (\<lambda>a. 0), nextAddress = 1\<rparr>"
  have registered: "map_of (m_groups ?mgr) 1 = Some 0" by simp
  have other: "(2 :: GroupName) \<noteq> 1" "map_of (m_groups ?mgr) 2 = Some 0" by simp_all
  have obj: "shareGroups ?mgr 0 = Some ShareGroup_new" by simp
  from deleteShareGroup_effect[OF registered] other
  have "getShareGroup 1 (deleteShareGroup 1 ?mgr) = (None, deleteShareGroup 1 ?mgr)"
    and "map_of (m_groups (deleteShareGroup 1 ?mgr)) 2 = map_of (m_groups ?mgr) 2"
    and "fst (getShareGroup 2 (deleteShareGroup 1 ?mgr)) = Some 0"
    and "shareGroups (deleteShareGroup 1 ?mgr) 0 = shareGroups ?mgr 0"
    by blast+
  with other obj show ?thesis by simp
qed

text \<open>
  The object does go when the deleted key was its last owner: no other key registered
  for it and no pointer to it held by a caller.
\<close>

lemma deleteShareGroup_last_owner:
  assumes "map_of (m_groups mgr) K = Some a"
    and "\<forall>K'. K' \<noteq> K \<longrightarrow> map_of (m_groups mgr) K' \<noteq> Some a"
    and "distinct (map fst (m_groups mgr))"
    and "held mgr a = 0"
  shows "shareGroups (deleteShareGroup K mgr) a = None"
proof -
  have "a \<notin> snd ` set (filter (\<lambda>(k, a). k \<noteq> K) (m_groups mgr))"
  proof
    assume "a \<in> snd ` set (filter (\<lambda>(k, a). k \<noteq> K) (m_groups mgr))"
    then obtain K' where "(K', a) \<in> set (m_groups mgr)" "K' \<noteq> K" by auto
    with assms(3) have "map_of (m_groups mgr) K' = Some a" by simp
    with assms(2) \<open>K' \<noteq> K\<close> show False by blast
  qed
  then show ?thesis
    using assms(1,4) by (simp add: deleteShareGroup_def reclaim_def owned_def)
qed

end
